theory Spec2Isabelle
  imports Complex_Main "HOL-Library.Sublist"
begin

section \<open>JavaScript values and the frames of the socket\<close>

text \<open>
  The chat clients read every frame with \<^verbatim>\<open>JSON.parse(event.data)\<close> and then look at one
  or two properties of the result. A parsed value is a JSON value; a number is an IEEE
  double, of which only "is it zero" matters below (an overflowing literal such as
  \<^verbatim>\<open>1e999\<close> parses to an infinity; \<^verbatim>\<open>JSON.parse\<close> never yields NaN). The keys of a parsed
  object are distinct.
\<close>

datatype number = Finite rat | PosInfinity | NegInfinity

datatype json =
    JNull
  | JBool bool
  | JNumber number
  | JString string
  | JArray "json list"
  | JObject "(string \<times> json) list"

text \<open>
  The exceptions an event can raise: \<^verbatim>\<open>JSON.parse\<close> throws a SyntaxError on text that
  is not JSON, reading a property of \<^verbatim>\<open>null\<close> throws a TypeError,
  \<^verbatim>\<open>WebSocket.send\<close> throws an InvalidStateError while the socket is still connecting,
  and React throws an error ("Objects are not valid as a React child") when it is to
  render a plain object.
\<close>

datatype js_error = SyntaxError | TypeError | InvalidStateError | InvalidChild

text \<open>
  \<^verbatim>\<open>event.data\<close> is represented by what \<^verbatim>\<open>JSON.parse\<close> makes of it: text that is not
  JSON (\<open>Malformed\<close>), or the value it denotes.
\<close>

datatype frame = Malformed | Wellformed json

definition JSON_parse :: "frame \<Rightarrow> js_error + json" where
  "JSON_parse f = (case f of Malformed \<Rightarrow> Inl SyntaxError | Wellformed v \<Rightarrow> Inr v)"

text \<open>
  \<^verbatim>\<open>data.key\<close> for the keys the clients read (\<^verbatim>\<open>response\<close>, \<^verbatim>\<open>message\<close>, \<^verbatim>\<open>timestamp\<close>),
  none of which is a built-in property of a string, array, number or boolean:
  \<open>None\<close> is \<^verbatim>\<open>undefined\<close>.
\<close>

definition get_property :: "json \<Rightarrow> string \<Rightarrow> js_error + json option" where
  "get_property data key =
     (case data of
        JNull \<Rightarrow> Inl TypeError
      | JObject kvs \<Rightarrow> Inr (map_of kvs key)
      | _ \<Rightarrow> Inr None)"

text \<open>JavaScript's truthiness, as \<^verbatim>\<open>if (data.response)\<close> tests it.\<close>

fun truthy_number :: "number \<Rightarrow> bool" where
  "truthy_number (Finite q) = (q \<noteq> 0)"
| "truthy_number PosInfinity = True"
| "truthy_number NegInfinity = True"

fun truthy :: "json option \<Rightarrow> bool" where
  "truthy None = False"
| "truthy (Some JNull) = False"
| "truthy (Some (JBool b)) = b"
| "truthy (Some (JNumber n)) = truthy_number n"
| "truthy (Some (JString s)) = (s \<noteq> [])"
| "truthy (Some (JArray xs)) = True"
| "truthy (Some (JObject kvs)) = True"

text \<open>
  What React can render where the components show a message, \<^verbatim>\<open>{msg.text}\<close> and
  \<^verbatim>\<open>{message.content}\<close>: a string or a number is shown, a boolean, \<^verbatim>\<open>null\<close> and
  \<^verbatim>\<open>undefined\<close> show nothing, an array is rendered element by element, and a plain object
  makes React throw. Neither component is inside an error boundary, so an exception raised
  while React renders removes the component from the page.
\<close>

fun valid_child :: "json \<Rightarrow> bool" where
  "valid_child (JObject kvs) = False"
| "valid_child (JArray xs) = list_all valid_child xs"
| "valid_child v = True"

definition valid_content :: "json option \<Rightarrow> bool" where
  "valid_content c = (case c of None \<Rightarrow> True | Some v \<Rightarrow> valid_child v)"

text \<open>
  \<^verbatim>\<open>String.prototype.trim\<close>: strips white space and line terminators from both ends.
  Characters are code units below 256, of which these seven are white space.
\<close>

definition is_whitespace :: "char \<Rightarrow> bool" where
  "is_whitespace c =
     (c = CHR 0x09 \<or> c = CHR 0x0A \<or> c = CHR 0x0B \<or> c = CHR 0x0C \<or> c = CHR 0x0D
      \<or> c = CHR 0x20 \<or> c = CHR 0xA0)"

definition trim :: "string \<Rightarrow> string" where
  "trim s = rev (dropWhile is_whitespace (rev (dropWhile is_whitespace s)))"

section \<open>Sockets and timers\<close>

datatype ready_state = CONNECTING | OPEN | CLOSING | CLOSED

text \<open>
  A \<^verbatim>\<open>WebSocket\<close> object: its address, its \<^verbatim>\<open>readyState\<close> and the frames handed to
  \<^verbatim>\<open>send\<close> while it was open (each the value given to \<^verbatim>\<open>JSON.stringify\<close>). The objects
  live in a store, a list indexed by the order of creation; a reference is an index.
\<close>

record websocket =
  url :: string
  readyState :: ready_state
  sent :: "json list"

definition new_WebSocket :: "string \<Rightarrow> websocket" where
  "new_WebSocket u = \<lparr>url = u, readyState = CONNECTING, sent = []\<rparr>"

text \<open>
  \<^verbatim>\<open>ws.send(data)\<close>: throws while the socket is connecting, transmits when it is open,
  and silently discards the data once the socket is closing or closed.
\<close>

definition send :: "websocket list \<Rightarrow> nat \<Rightarrow> json \<Rightarrow> js_error + websocket list" where
  "send socks i v =
     (if i < length socks then
        (case readyState (socks ! i) of
           CONNECTING \<Rightarrow> Inl InvalidStateError
         | OPEN \<Rightarrow> Inr (socks[i := (socks ! i)\<lparr>sent := sent (socks ! i) @ [v]\<rparr>])
         | CLOSING \<Rightarrow> Inr socks
         | CLOSED \<Rightarrow> Inr socks)
      else Inr socks)"

definition set_readyState :: "websocket list \<Rightarrow> nat \<Rightarrow> ready_state \<Rightarrow> websocket list" where
  "set_readyState socks i r =
     (if i < length socks then socks[i := (socks ! i)\<lparr>readyState := r\<rparr>] else socks)"

text \<open>What a pending \<^verbatim>\<open>setTimeout\<close> will call.\<close>

datatype timer_callback = ConnectWebSocket | ScrollIntoView

section \<open>The chat client \<^verbatim>\<open>App\<close>\<close>

record message =
  "text" :: json
  isUser :: bool
  timestamp :: nat

text \<open>
  The component's state (\<^verbatim>\<open>useState\<close>, \<^verbatim>\<open>useRef\<close>) together with the sockets it has
  created and the timeouts it has scheduled (delay in milliseconds, callback).
  \<open>timestamp\<close> is \<^verbatim>\<open>new Date()\<close>, the clock's reading in milliseconds, which each
  handler takes as \<open>now\<close>. The text of a message is typed \<^verbatim>\<open>string\<close> in the source but
  holds whatever value \<^verbatim>\<open>data.response\<close> is.
\<close>

record app_state =
  messages :: "message list"
  input :: string
  isConnected :: bool
  isLoading :: bool
  wsRef :: "nat option"
  sockets :: "websocket list"
  timers :: "(nat \<times> timer_callback) list"

definition app_init :: app_state where
  "app_init = \<lparr>messages = [], input = [], isConnected = False, isLoading = False,
     wsRef = None, sockets = [], timers = []\<rparr>"

text \<open>
  A handler returns the exception it raised, if any, and the state after it. A state
  update made before the exception stays. The state a handler is given is one React has
  rendered, so the entries already in its log can be rendered; an update that React
  cannot render raises the exception of the rendering, and the state returned with it is
  the last one rendered, that of the component React then removes.
\<close>

type_synonym 's outcome = "js_error option \<times> 's"

definition connectWebSocket :: "app_state \<Rightarrow> app_state" where
  "connectWebSocket s =
     s\<lparr>sockets := sockets s @ [new_WebSocket ''ws://localhost:7860/ws/chat''],
       wsRef := Some (length (sockets s))\<rparr>"

definition onopen :: "app_state \<Rightarrow> app_state" where
  "onopen s = s\<lparr>isConnected := True\<rparr>"

definition addMessage :: "app_state \<Rightarrow> json \<Rightarrow> bool \<Rightarrow> nat \<Rightarrow> app_state" where
  "addMessage s t u now =
     s\<lparr>messages := messages s @ [\<lparr>text = t, isUser = u, timestamp = now\<rparr>],
       timers := timers s @ [(100, ScrollIntoView)]\<rparr>"

definition onmessage :: "app_state \<Rightarrow> frame \<Rightarrow> nat \<Rightarrow> app_state outcome" where
  "onmessage s f now =
     (case JSON_parse f of
        Inl e \<Rightarrow> (Some e, s)
      | Inr data \<Rightarrow>
          (case get_property data ''response'' of
             Inl e \<Rightarrow> (Some e, s)
           | Inr r \<Rightarrow>
               (if truthy r then
                  (if valid_child (the r)
                   then (None, (addMessage s (the r) False now)\<lparr>isLoading := False\<rparr>)
                   else (Some InvalidChild, s))
                else (None, s\<lparr>isLoading := False\<rparr>))))"

definition onclose :: "app_state \<Rightarrow> app_state" where
  "onclose s = s\<lparr>isConnected := False, timers := timers s @ [(3000, ConnectWebSocket)]\<rparr>"

definition onerror :: "app_state \<Rightarrow> app_state" where
  "onerror s = s\<lparr>isConnected := False\<rparr>"

definition handleSubmit :: "app_state \<Rightarrow> nat \<Rightarrow> app_state outcome" where
  "handleSubmit s now =
     (if trim (input s) = [] \<or> wsRef s = None \<or> \<not> isConnected s then (None, s)
      else
        let s1 = addMessage s (JString (input s)) True now in
        (case send (sockets s1) (the (wsRef s1))
                (JObject [(''message'', JString (input s)), (''user_id'', JString ''default'')]) of
           Inl e \<Rightarrow> (Some e, s1)
         | Inr socks \<Rightarrow> (None, s1\<lparr>sockets := socks, input := [], isLoading := True\<rparr>)))"

text \<open>The status the header shows: \<^verbatim>\<open>isConnected ? 'Connected' : 'Disconnected'\<close>.\<close>

definition connection_status :: "app_state \<Rightarrow> string" where
  "connection_status s = (if isConnected s then ''Connected'' else ''Disconnected'')"

subsection \<open>The events of a mounted \<^verbatim>\<open>App\<close>\<close>

text \<open>
  What the browser and the user do to the mounted component: the mount effect, the
  callbacks of the socket with the given index, a timeout firing (its index in the list
  of pending ones), typing into the input, and submitting the form. Events that read the
  clock carry its reading. The cleanup of the effect, which closes the socket when the
  component is unmounted, ends a sequence of events and is not one of them.
\<close>

datatype event =
    Mount
  | SocketOpen nat
  | SocketMessage nat frame nat
  | SocketClose nat
  | SocketError nat
  | TimerFires nat
  | Change string
  | Submit nat

definition run_timer :: "app_state \<Rightarrow> nat \<Rightarrow> app_state" where
  "run_timer s k =
     (if k < length (timers s) then
        let s1 = s\<lparr>timers := take k (timers s) @ drop (Suc k) (timers s)\<rparr> in
        (case snd (timers s ! k) of
           ConnectWebSocket \<Rightarrow> connectWebSocket s1
         | ScrollIntoView \<Rightarrow> s1)
      else s)"

fun app_step :: "app_state \<Rightarrow> event \<Rightarrow> app_state outcome" where
  "app_step s Mount = (None, connectWebSocket s)"
| "app_step s (SocketOpen i) = (None, onopen (s\<lparr>sockets := set_readyState (sockets s) i OPEN\<rparr>))"
| "app_step s (SocketMessage i f now) = onmessage s f now"
| "app_step s (SocketClose i) = (None, onclose (s\<lparr>sockets := set_readyState (sockets s) i CLOSED\<rparr>))"
| "app_step s (SocketError i) = (None, onerror s)"
| "app_step s (TimerFires k) = (None, run_timer s k)"
| "app_step s (Change v) = (None, s\<lparr>input := v\<rparr>)"
| "app_step s (Submit now) = handleSubmit s now"

text \<open>
  When the browser can deliver an event: the effect runs once, on the fresh component; a
  socket opens only while connecting, delivers frames only while open, and reports an
  error or a close only until it is closed; only a pending timeout fires.
\<close>

fun enabled :: "app_state \<Rightarrow> event \<Rightarrow> bool" where
  "enabled s Mount = (wsRef s = None \<and> sockets s = [])"
| "enabled s (SocketOpen i) = (i < length (sockets s) \<and> readyState (sockets s ! i) = CONNECTING)"
| "enabled s (SocketMessage i f now) = (i < length (sockets s) \<and> readyState (sockets s ! i) = OPEN)"
| "enabled s (SocketClose i) = (i < length (sockets s) \<and> readyState (sockets s ! i) \<noteq> CLOSED)"
| "enabled s (SocketError i) = (i < length (sockets s) \<and> readyState (sockets s ! i) \<noteq> CLOSED)"
| "enabled s (TimerFires k) = (k < length (timers s))"
| "enabled s (Change v) = True"
| "enabled s (Submit now) = True"

text \<open>
  The state after a sequence of events, \<open>None\<close> when one of them cannot happen. After
  an event that removes the component the state is the last one rendered; what the sockets
  and timeouts of a removed component still do is not followed.
\<close>

fun app_run :: "app_state \<Rightarrow> event list \<Rightarrow> app_state option" where
  "app_run s [] = Some s"
| "app_run s (e # es) = (if enabled s e then app_run (snd (app_step s e)) es else None)"

text \<open>The states a sequence of events passes through, the first one included.\<close>

fun app_trace :: "app_state \<Rightarrow> event list \<Rightarrow> app_state list" where
  "app_trace s [] = [s]"
| "app_trace s (e # es) = s # app_trace (snd (app_step s e)) es"

section \<open>The chat client \<^verbatim>\<open>ChatInterface\<close>\<close>

text \<open>
  \<^verbatim>\<open>Date.now().toString()\<close>: the clock's reading in decimal.
\<close>

fun toString :: "nat \<Rightarrow> string" where
  "toString n =
     (if n < 10 then [''0123456789'' ! n]
      else toString (n div 10) @ [''0123456789'' ! (n mod 10)])"

declare toString.simps [simp del]

text \<open>A \<^verbatim>\<open>Date\<close>: \<^verbatim>\<open>new Date()\<close> at the given reading of the clock, or \<^verbatim>\<open>new Date(v)\<close>.\<close>

datatype js_date = Date_now nat | Date_of "json option"

text \<open>
  \<^verbatim>\<open>new Date(v)\<close> first converts \<^verbatim>\<open>v\<close> to a primitive value. A parsed object converts to
  the string of \<^verbatim>\<open>Object.prototype.toString\<close> unless it has a key \<^verbatim>\<open>toString\<close> of its own,
  whose value is then not a function, and the conversion throws a TypeError; an array
  converts by joining the strings of its elements. Any primitive makes a date, possibly
  an invalid one, whose time of day is still shown without an exception.
\<close>

fun to_primitive_ok :: "json \<Rightarrow> bool" where
  "to_primitive_ok (JObject kvs) = (map_of kvs ''toString'' = None)"
| "to_primitive_ok (JArray xs) = list_all to_primitive_ok xs"
| "to_primitive_ok v = True"

definition new_Date :: "json option \<Rightarrow> js_error + js_date" where
  "new_Date v =
     (case v of
        None \<Rightarrow> Inr (Date_of None)
      | Some j \<Rightarrow> (if to_primitive_ok j then Inr (Date_of v) else Inl TypeError))"

record chat_message =
  ci_id :: string
  content :: "json option"
  ci_isUser :: bool
  ci_timestamp :: js_date

record chat_state =
  ci_messages :: "chat_message list"
  ci_input :: string
  ci_isLoading :: bool
  socket :: "nat option"
  ci_sockets :: "websocket list"

definition chat_init :: chat_state where
  "chat_init = \<lparr>ci_messages = [], ci_input = [], ci_isLoading = False, socket = None,
     ci_sockets = []\<rparr>"

text \<open>The mount effect: creates the socket, attaches the callbacks, \<^verbatim>\<open>setSocket(ws)\<close>.\<close>

definition ci_mount :: "chat_state \<Rightarrow> chat_state" where
  "ci_mount s =
     s\<lparr>ci_sockets := ci_sockets s @ [new_WebSocket ''ws://localhost:8000/ws/chat''],
       socket := Some (length (ci_sockets s))\<rparr>"

text \<open>
  \<^verbatim>\<open>ws.onmessage\<close>. The new entry is built inside the updater given to \<^verbatim>\<open>setMessages\<close>, so
  the TypeError of a \<^verbatim>\<open>null\<close> frame, or of a timestamp that makes no date, is raised when
  React applies the update and, like the error of a \<^verbatim>\<open>message\<close> that cannot be rendered,
  removes the component; the state returned with any of them is the last one rendered.
\<close>

definition ci_onmessage :: "chat_state \<Rightarrow> frame \<Rightarrow> nat \<Rightarrow> chat_state outcome" where
  "ci_onmessage s f now =
     (case JSON_parse f of
        Inl e \<Rightarrow> (Some e, s)
      | Inr data \<Rightarrow>
          (case get_property data ''message'' of
             Inl e \<Rightarrow> (Some e, s)
           | Inr m \<Rightarrow>
               (case get_property data ''timestamp'' of
                  Inl e \<Rightarrow> (Some e, s)
                | Inr t \<Rightarrow>
                    (case new_Date t of
                       Inl e \<Rightarrow> (Some e, s)
                     | Inr d \<Rightarrow>
                         (if valid_content m then
                            (None,
                             s\<lparr>ci_messages := ci_messages s @
                                  [\<lparr>ci_id = toString now, content = m, ci_isUser = False,
                                    ci_timestamp = d\<rparr>],
                               ci_isLoading := False\<rparr>)
                          else (Some InvalidChild, s))))))"

definition ci_onerror :: "chat_state \<Rightarrow> chat_state" where
  "ci_onerror s = s\<lparr>ci_isLoading := False\<rparr>"

text \<open>\<^verbatim>\<open>handleSend\<close> catches the exception of \<^verbatim>\<open>socket.send\<close> itself, so it raises none.\<close>

definition handleSend :: "chat_state \<Rightarrow> nat \<Rightarrow> chat_state" where
  "handleSend s now =
     (if trim (ci_input s) = [] \<or> socket s = None \<or> ci_isLoading s then s
      else
        let s1 = s\<lparr>ci_messages := ci_messages s @
                      [\<lparr>ci_id = toString now, content = Some (JString (ci_input s)),
                        ci_isUser = True, ci_timestamp = Date_now now\<rparr>],
                   ci_input := [], ci_isLoading := True\<rparr> in
        (case send (ci_sockets s1) (the (socket s1)) (JObject [(''text'', JString (ci_input s))]) of
           Inl e \<Rightarrow> s1\<lparr>ci_isLoading := False\<rparr>
         | Inr socks \<Rightarrow> s1\<lparr>ci_sockets := socks\<rparr>))"

definition handleClearChat :: "chat_state \<Rightarrow> chat_state" where
  "handleClearChat s = s\<lparr>ci_messages := []\<rparr>"

definition handleKeyPress :: "chat_state \<Rightarrow> string \<Rightarrow> bool \<Rightarrow> nat \<Rightarrow> chat_state" where
  "handleKeyPress s key shiftKey now =
     (if key = ''Enter'' \<and> \<not> shiftKey then handleSend s now else s)"

datatype ci_event =
    CiMount
  | CiOpen nat
  | CiMessage nat frame nat
  | CiError nat
  | CiClose nat
  | CiChange string
  | CiSend nat
  | CiKeyPress string bool nat
  | CiClear

fun ci_step :: "chat_state \<Rightarrow> ci_event \<Rightarrow> chat_state outcome" where
  "ci_step s CiMount = (None, ci_mount s)"
| "ci_step s (CiOpen i) = (None, s\<lparr>ci_sockets := set_readyState (ci_sockets s) i OPEN\<rparr>)"
| "ci_step s (CiMessage i f now) = ci_onmessage s f now"
| "ci_step s (CiError i) = (None, ci_onerror s)"
| "ci_step s (CiClose i) = (None, s\<lparr>ci_sockets := set_readyState (ci_sockets s) i CLOSED\<rparr>)"
| "ci_step s (CiChange v) = (None, s\<lparr>ci_input := v\<rparr>)"
| "ci_step s (CiSend now) = (None, handleSend s now)"
| "ci_step s (CiKeyPress key shiftKey now) = (None, handleKeyPress s key shiftKey now)"
| "ci_step s CiClear = (None, handleClearChat s)"

section \<open>The session\<close>

text \<open>
  Modelled from the spec: the credentials of a session and where they are kept. The
  Session Manager (the hook \<^verbatim>\<open>useAuth\<close>) is not among the repository's files, only its
  test and its caller \<^verbatim>\<open>Login\<close> are. The spec gives the credentials a token, an optional
  expiry and the user's identity, held in memory and, the token alone, under one key of
  durable storage.
\<close>

record credentials =
  token :: string
  expiresAt :: "nat option"
  userId :: string

record session =
  memory :: "credentials option"
  durable :: "string option"

text \<open>
  Modelled from the spec: \<^verbatim>\<open>logout()\<close> of the missing Session Manager, which "clears
  SessionCredentials from memory and durable storage, synchronously".
\<close>

definition logout :: "session \<Rightarrow> session" where
  "logout ses = ses\<lparr>memory := None, durable := None\<rparr>"

text \<open>
  Modelled from the spec: the login endpoint, an external collaborator "that exchanges
  credentials for a token", seen through the ways the exchange can end.
\<close>

datatype backend_reply = Granted credentials | Rejected | Unreachable | Failed

datatype login_error = InvalidCredentials | NetworkUnavailable | ServerError

text \<open>
  Modelled from the spec: \<^verbatim>\<open>login(username, password)\<close> of the missing Session Manager,
  which "exchanges credentials for a token via the backend; on success stores
  SessionCredentials (memory + durable storage) and returns the identity; on failure
  returns a taxonomized error without storing partial state".
\<close>

definition login ::
  "(string \<Rightarrow> string \<Rightarrow> backend_reply) \<Rightarrow> session \<Rightarrow> string \<Rightarrow> string
     \<Rightarrow> (login_error + string) \<times> session" where
  "login backend ses username password =
     (case backend username password of
        Granted c \<Rightarrow> (Inr (userId c), ses\<lparr>memory := Some c, durable := Some (token c)\<rparr>)
      | Rejected \<Rightarrow> (Inl InvalidCredentials, ses)
      | Unreachable \<Rightarrow> (Inl NetworkUnavailable, ses)
      | Failed \<Rightarrow> (Inl ServerError, ses))"

text \<open>
  The form \<^verbatim>\<open>Login\<close> and its \<^verbatim>\<open>handleSubmit\<close>, which awaits \<open>login\<close> and shows one fixed
  message whatever made it fail.
\<close>

record login_form =
  form_username :: string
  form_password :: string
  form_error :: "string option"
  form_isLoading :: bool

definition Login_handleSubmit ::
  "(string \<Rightarrow> string \<Rightarrow> backend_reply) \<Rightarrow> login_form \<times> session \<Rightarrow> login_form \<times> session" where
  "Login_handleSubmit backend fs =
     (let (r, ses') = login backend (snd fs) (form_username (fst fs)) (form_password (fst fs)) in
      ((fst fs)\<lparr>form_error :=
                   (case r of Inl e \<Rightarrow> Some ''Invalid username or password'' | Inr u \<Rightarrow> None),
                 form_isLoading := False\<rparr>,
       ses'))"

text \<open>
  The page: the chat component next to the session it runs in. \<^verbatim>\<open>ChatInterface\<close> does
  not use the Session Manager, so clearing the chat is \<open>handleClearChat\<close> on the
  component and nothing else.
\<close>

record client =
  chat :: chat_state
  credentials_of :: session

definition clear_history :: "client \<Rightarrow> client" where
  "clear_history c = c\<lparr>chat := handleClearChat (chat c)\<rparr>"

section \<open>The backoff policy of the specification\<close>

text \<open>
  The delay the specification asks for, to compare with the one the code schedules:
  \<open>min (baseDelay * 2 ^ retryCount) maxDelay\<close> milliseconds, and what "within 20 per cent
  of it" means for a delay \<open>d\<close>.
\<close>

definition spec_backoff :: "nat \<Rightarrow> nat \<Rightarrow> nat \<Rightarrow> nat" where
  "spec_backoff baseDelay maxDelay retryCount = min (baseDelay * 2 ^ retryCount) maxDelay"

definition within_jitter :: "nat \<Rightarrow> nat \<Rightarrow> bool" where
  "within_jitter d nominal = (4 * nominal \<le> 5 * d \<and> 5 * d \<le> 6 * nominal)"

section \<open>Auxiliary facts\<close>

lemmas socket_defs = set_readyState_def new_WebSocket_def send_def JSON_parse_def
  get_property_def

lemmas app_defs = app_init_def connectWebSocket_def onopen_def onclose_def onerror_def
  addMessage_def onmessage_def handleSubmit_def run_timer_def socket_defs

lemmas chat_defs = chat_init_def ci_mount_def ci_onmessage_def ci_onerror_def handleSend_def
  handleClearChat_def handleKeyPress_def new_Date_def valid_content_def

lemma get_property_Inr: "data \<noteq> JNull \<Longrightarrow> \<exists>r. get_property data key = Inr r"
  by (cases data) (simp_all add: get_property_def)

lemma get_property_not_null: "get_property data key = Inr r \<Longrightarrow> data \<noteq> JNull"
  by (auto simp: get_property_def)

subsection \<open>Only \<open>onopen\<close> raises \<open>isConnected\<close>\<close>

lemma onmessage_isConnected: "isConnected (snd (onmessage s f now)) = isConnected s"
  by (simp add: onmessage_def addMessage_def split: sum.splits)

lemma handleSubmit_isConnected: "isConnected (snd (handleSubmit s now)) = isConnected s"
  by (simp add: handleSubmit_def addMessage_def Let_def split: sum.splits)

lemma run_timer_isConnected: "isConnected (run_timer s k) = isConnected s"
  by (simp add: run_timer_def connectWebSocket_def Let_def split: timer_callback.splits)

lemma step_raises_isConnected:
  assumes "\<not> isConnected s" and "isConnected (snd (app_step s ev))"
  shows "\<exists>i. ev = SocketOpen i"
  using assms
  by (cases ev)
     (simp_all add: onmessage_isConnected handleSubmit_isConnected run_timer_isConnected
        connectWebSocket_def onclose_def onerror_def)

subsection \<open>Traces and runs\<close>

lemma app_trace_length: "length (app_trace s evs) = Suc (length evs)"
  by (induction evs arbitrary: s) simp_all

lemma app_trace_Suc:
  "k < length evs \<Longrightarrow> app_trace s evs ! Suc k = snd (app_step (app_trace s evs ! k) (evs ! k))"
proof (induction evs arbitrary: s k)
  case Nil
  then show ?case by simp
next
  case (Cons e es)
  show ?case
  proof (cases k)
    case 0
    then show ?thesis by (cases es) simp_all
  next
    case (Suc j)
    with Cons show ?thesis by simp
  qed
qed

lemma app_run_enabled:
  "app_run s evs = Some s' \<Longrightarrow> k < length evs \<Longrightarrow> enabled (app_trace s evs ! k) (evs ! k)"
proof (induction evs arbitrary: s k)
  case Nil
  then show ?case by simp
next
  case (Cons e es)
  from Cons.prems(1) have en: "enabled s e" and run: "app_run (snd (app_step s e)) es = Some s'"
    by (simp_all split: if_splits)
  show ?case
  proof (cases k)
    case 0
    with en show ?thesis by simp
  next
    case (Suc j)
    with Cons.prems(2) have "j < length es" by simp
    from Cons.IH[OF run this] Suc show ?thesis by simp
  qed
qed

subsection \<open>What the handlers do to the log\<close>

lemma onmessage_shown:
  "get_property data ''response'' = Inr r \<Longrightarrow> truthy r \<Longrightarrow> valid_child (the r) \<Longrightarrow>
   onmessage s (Wellformed data) now
     = (None, (addMessage s (the r) False now)\<lparr>isLoading := False\<rparr>)"
  by (simp add: onmessage_def JSON_parse_def)

lemma onmessage_not_truthy:
  "get_property data ''response'' = Inr r \<Longrightarrow> \<not> truthy r \<Longrightarrow>
   onmessage s (Wellformed data) now = (None, s\<lparr>isLoading := False\<rparr>)"
  by (simp add: onmessage_def JSON_parse_def)

lemma ci_onmessage_shown:
  "get_property data ''message'' = Inr m \<Longrightarrow> get_property data ''timestamp'' = Inr t \<Longrightarrow>
   new_Date t = Inr d \<Longrightarrow> valid_content m \<Longrightarrow>
   ci_onmessage c (Wellformed data) now
     = (None, c\<lparr>ci_messages := ci_messages c @
                    [\<lparr>ci_id = toString now, content = m, ci_isUser = False,
                      ci_timestamp = d\<rparr>],
                ci_isLoading := False\<rparr>)"
  by (simp add: ci_onmessage_def JSON_parse_def)

lemma onmessage_log:
  "messages (snd (onmessage s f now)) = messages s
   \<or> (\<exists>m. messages (snd (onmessage s f now)) = messages s @ [m])"
  by (simp add: onmessage_def addMessage_def split: sum.splits)

lemma handleSubmit_log:
  "messages (snd (handleSubmit s now)) = messages s
   \<or> (\<exists>m. messages (snd (handleSubmit s now)) = messages s @ [m])"
  by (simp add: handleSubmit_def addMessage_def Let_def split: sum.splits)

lemma run_timer_log: "messages (run_timer s k) = messages s"
  by (simp add: run_timer_def connectWebSocket_def Let_def split: timer_callback.splits)

lemma app_step_log:
  "messages (snd (app_step s ev)) = messages s
   \<or> (\<exists>m. messages (snd (app_step s ev)) = messages s @ [m])"
proof (cases ev)
  case (SocketMessage i f now)
  then show ?thesis using onmessage_log by simp
next
  case (Submit now)
  then show ?thesis using handleSubmit_log by simp
qed (simp_all add: run_timer_log connectWebSocket_def onopen_def onclose_def onerror_def)

lemma ci_onmessage_log:
  "ci_messages (snd (ci_onmessage c f now)) = ci_messages c
   \<or> (\<exists>m. ci_messages (snd (ci_onmessage c f now)) = ci_messages c @ [m])"
  by (simp add: ci_onmessage_def split: sum.splits)

lemma handleSend_log:
  "ci_messages (handleSend c now) = ci_messages c
   \<or> (\<exists>m. ci_messages (handleSend c now) = ci_messages c @ [m])"
  by (simp add: handleSend_def Let_def split: sum.splits)

lemma ci_step_log:
  assumes "ev \<noteq> CiClear"
  shows "ci_messages (snd (ci_step c ev)) = ci_messages c
   \<or> (\<exists>m. ci_messages (snd (ci_step c ev)) = ci_messages c @ [m])"
proof (cases ev)
  case (CiMessage i f now)
  then show ?thesis using ci_onmessage_log by simp
next
  case (CiSend now)
  then show ?thesis using handleSend_log by simp
next
  case (CiKeyPress key shiftKey now)
  then show ?thesis using handleSend_log by (simp add: handleKeyPress_def)
next
  case CiClear
  with assms show ?thesis by simp
qed (simp_all add: ci_mount_def ci_onerror_def)

lemma Login_handleSubmit_one_message:
  "fst (login backend ses (form_username f) (form_password f)) = Inl e \<Longrightarrow>
   form_error (fst (Login_handleSubmit backend (f, ses))) = Some ''Invalid username or password''"
  by (auto simp: Login_handleSubmit_def split: prod.splits)

section \<open>The connection\<close>

text \<open>
  Claim C1, as amended. The connection status of \<^verbatim>\<open>App\<close> has two values, Disconnected
  and Connected, and no Connecting state between them. In every sequence of events from
  the initial state, a step that takes the status from Disconnected to Connected is the
  open event of a socket that \<open>connectWebSocket\<close> created before and that was still
  connecting.
\<close>

theorem connected_only_by_onopen:
  assumes "app_run app_init evs = Some s"
    and "k < length evs"
    and "connection_status (app_trace app_init evs ! k) = ''Disconnected''"
    and "connection_status (app_trace app_init evs ! Suc k) = ''Connected''"
  shows "\<exists>i. evs ! k = SocketOpen i \<and> i < length (sockets (app_trace app_init evs ! k))
           \<and> readyState (sockets (app_trace app_init evs ! k) ! i) = CONNECTING"
proof -
  let ?t = "app_trace app_init evs ! k"
  from assms(3) have "\<not> isConnected ?t"
    by (simp add: connection_status_def split: if_splits)
  moreover from assms(4) have "isConnected (snd (app_step ?t (evs ! k)))"
    by (simp add: app_trace_Suc[OF assms(2)] connection_status_def split: if_splits)
  ultimately obtain i where i: "evs ! k = SocketOpen i"
    using step_raises_isConnected by blast
  from app_run_enabled[OF assms(1,2)] i show ?thesis by simp
qed

text \<open>The theorem at the mount followed by the opening of the first socket.\<close>

theorem connected_only_by_onopen_witness:
  "app_run app_init [Mount, SocketOpen 0] \<noteq> None
   \<and> connection_status (app_trace app_init [Mount, SocketOpen 0] ! 1) = ''Disconnected''
   \<and> connection_status (app_trace app_init [Mount, SocketOpen 0] ! Suc 1) = ''Connected''
   \<and> (\<exists>i. [Mount, SocketOpen 0] ! 1 = SocketOpen i
          \<and> i < length (sockets (app_trace app_init [Mount, SocketOpen 0] ! 1)))"
  using connected_only_by_onopen [of "[Mount, SocketOpen 0]" _ 1]
  by (simp add: app_defs connection_status_def)

text \<open>
  Claim C1 as stated fails: after the mount and the opening of the socket the status has
  been Disconnected, Disconnected, Connected, and never Connecting.
\<close>

theorem skips_connecting_counterexample:
  "app_run app_init [Mount, SocketOpen 0] \<noteq> None
   \<and> map connection_status (app_trace app_init [Mount, SocketOpen 0])
       = [''Disconnected'', ''Disconnected'', ''Connected'']"
  by (simp add: app_defs connection_status_def)

text \<open>
  Claim C2, as amended. Every close of a socket schedules exactly one call of
  \<open>connectWebSocket\<close>, after a fixed 3000 milliseconds, in whatever state the client is
  (so also however many attempts came before), and shows the client as disconnected; an
  error of the socket alone schedules nothing. There is no retry count, no growing delay
  and no jitter.
\<close>

theorem reconnect_delay_fixed:
  "timers (onclose s) = timers s @ [(3000, ConnectWebSocket)]
   \<and> timers (snd (app_step s (SocketClose i))) = timers s @ [(3000, ConnectWebSocket)]
   \<and> isConnected (snd (app_step s (SocketClose i))) = False
   \<and> timers (snd (app_step s (SocketError i))) = timers s"
  by (simp add: onclose_def onerror_def)

text \<open>
  Claim C2 as stated fails: the first close of a connected socket schedules the
  reconnection after 3000 milliseconds, outside the 20 per cent around the 1000 that the
  backoff policy gives for a retry count of 0.
\<close>

theorem backoff_counterexample:
  "app_run app_init [Mount, SocketOpen 0, SocketClose 0] \<noteq> None
   \<and> timers (last (app_trace app_init [Mount, SocketOpen 0, SocketClose 0]))
       = [(3000, ConnectWebSocket)]
   \<and> spec_backoff 1000 30000 0 = 1000
   \<and> \<not> within_jitter 3000 (spec_backoff 1000 30000 0)"
  by (simp add: app_defs spec_backoff_def within_jitter_def)

section \<open>Incoming frames\<close>

text \<open>
  Claim C3, as amended. The clients keep no origin id and no delivery state, and discard
  nothing: in \<^verbatim>\<open>App\<close> every frame whose \<^verbatim>\<open>response\<close> is truthy and can be rendered appends
  an entry with that text, so the same frame processed twice leaves two entries with the
  same text; in \<^verbatim>\<open>ChatInterface\<close> every frame other than \<^verbatim>\<open>null\<close> whose \<^verbatim>\<open>message\<close> can be
  rendered and whose \<^verbatim>\<open>timestamp\<close> makes a date appends an entry with that message and
  date, so the same frame processed twice leaves two such entries.
\<close>

theorem replay_appends_twice:
  assumes "get_property data ''response'' = Inr r" and "truthy r" and "valid_child (the r)"
    and "get_property cdata ''message'' = Inr m" and "get_property cdata ''timestamp'' = Inr t"
    and "new_Date t = Inr d" and "valid_content m"
  shows "fst (onmessage s (Wellformed data) n1) = None
     \<and> fst (onmessage (snd (onmessage s (Wellformed data) n1)) (Wellformed data) n2) = None
     \<and> messages (snd (onmessage (snd (onmessage s (Wellformed data) n1)) (Wellformed data) n2))
           = messages s @ [\<lparr>text = the r, isUser = False, timestamp = n1\<rparr>,
                           \<lparr>text = the r, isUser = False, timestamp = n2\<rparr>]
     \<and> fst (ci_onmessage c (Wellformed cdata) n1) = None
     \<and> fst (ci_onmessage (snd (ci_onmessage c (Wellformed cdata) n1)) (Wellformed cdata) n2) = None
     \<and> ci_messages (snd (ci_onmessage (snd (ci_onmessage c (Wellformed cdata) n1))
                           (Wellformed cdata) n2))
           = ci_messages c @
               [\<lparr>ci_id = toString n1, content = m, ci_isUser = False, ci_timestamp = d\<rparr>,
                \<lparr>ci_id = toString n2, content = m, ci_isUser = False, ci_timestamp = d\<rparr>]"
  by (simp add: onmessage_shown[OF assms(1-3)] ci_onmessage_shown[OF assms(4-7)] addMessage_def)

text \<open>The theorem at a reply that carries an origin id, processed twice by each client.\<close>

theorem replay_appends_twice_witness:
  "truthy (Some (JString ''Hello'')) \<and> valid_child (JString ''Hello'')
   \<and> map text (messages (snd (onmessage (snd (onmessage app_init
        (Wellformed (JObject [(''response'', JString ''Hello''), (''originId'', JString ''a1'')])) 1))
        (Wellformed (JObject [(''response'', JString ''Hello''), (''originId'', JString ''a1'')])) 2)))
     = [JString ''Hello'', JString ''Hello'']
   \<and> map content (ci_messages (snd (ci_onmessage (snd (ci_onmessage chat_init
        (Wellformed (JObject [(''message'', JString ''Hello''),
           (''timestamp'', JString ''2024-01-01T00:00:00Z''), (''originId'', JString ''a1'')])) 1))
        (Wellformed (JObject [(''message'', JString ''Hello''),
           (''timestamp'', JString ''2024-01-01T00:00:00Z''), (''originId'', JString ''a1'')])) 2)))
     = [Some (JString ''Hello''), Some (JString ''Hello'')]"
  using replay_appends_twice
    [of "JObject [(''response'', JString ''Hello''), (''originId'', JString ''a1'')]"
        "Some (JString ''Hello'')"
        "JObject [(''message'', JString ''Hello''),
           (''timestamp'', JString ''2024-01-01T00:00:00Z''), (''originId'', JString ''a1'')]"
        "Some (JString ''Hello'')" "Some (JString ''2024-01-01T00:00:00Z'')"
        "Date_of (Some (JString ''2024-01-01T00:00:00Z''))"
        app_init 1 2 chat_init]
  by (simp add: get_property_def valid_content_def new_Date_def app_init_def chat_init_def)

text \<open>
  Claim C3 as stated fails: the same frame delivered before and again after a
  reconnection leaves two entries in the log.
\<close>

theorem dedup_counterexample:
  "app_run app_init
     [Mount, SocketOpen 0,
      SocketMessage 0 (Wellformed (JObject [(''response'', JString ''Hello''), (''originId'', JString ''a1'')])) 1,
      SocketClose 0, TimerFires 1, SocketOpen 1,
      SocketMessage 1 (Wellformed (JObject [(''response'', JString ''Hello''), (''originId'', JString ''a1'')])) 2]
     \<noteq> None
   \<and> messages (last (app_trace app_init
     [Mount, SocketOpen 0,
      SocketMessage 0 (Wellformed (JObject [(''response'', JString ''Hello''), (''originId'', JString ''a1'')])) 1,
      SocketClose 0, TimerFires 1, SocketOpen 1,
      SocketMessage 1 (Wellformed (JObject [(''response'', JString ''Hello''), (''originId'', JString ''a1'')])) 2]))
     = [\<lparr>text = JString ''Hello'', isUser = False, timestamp = 1\<rparr>,
        \<lparr>text = JString ''Hello'', isUser = False, timestamp = 2\<rparr>]"
  by (simp add: app_defs)

text \<open>
  Claim C4, as amended. A frame that is not well-formed JSON makes the message handler
  of either client throw the SyntaxError of \<^verbatim>\<open>JSON.parse\<close>: no decode error is returned.
  The handler has changed nothing by then, so the frame is dropped and the whole state,
  the connection state included, is as before; the loading flag is not cleared either.
\<close>

theorem malformed_frame_throws:
  "onmessage s Malformed now = (Some SyntaxError, s)
   \<and> app_step s (SocketMessage i Malformed now) = (Some SyntaxError, s)
   \<and> ci_onmessage c Malformed now = (Some SyntaxError, c)"
  by (simp add: onmessage_def ci_onmessage_def JSON_parse_def)

text \<open>
  Claim C4 as stated fails: on a malformed frame, received while a reply is awaited, the
  handler throws.
\<close>

theorem malformed_frame_counterexample:
  "app_run app_init [Mount, SocketOpen 0, Change ''Hi'', Submit 1, SocketMessage 0 Malformed 2]
     \<noteq> None
   \<and> fst (app_step (last (app_trace app_init [Mount, SocketOpen 0, Change ''Hi'', Submit 1]))
        (SocketMessage 0 Malformed 2)) = Some SyntaxError"
  by (simp add: app_defs trim_def is_whitespace_def)

text \<open>
  Claim C9, as amended. In \<^verbatim>\<open>App\<close>, every received frame that parses to a JSON value
  other than \<^verbatim>\<open>null\<close>, and whose \<^verbatim>\<open>response\<close> is not a truthy value that React cannot
  render, is handled without an exception and clears the loading flag, even when it
  carries no reply to show: if its \<^verbatim>\<open>response\<close> is not truthy, nothing is appended to the log
  and only the loading flag changes; if it is truthy and can be rendered, the reply is
  appended as well.
\<close>

theorem onmessage_clears_isLoading:
  assumes "data \<noteq> JNull"
  shows "\<exists>r. get_property data ''response'' = Inr r
     \<and> (\<not> truthy r \<longrightarrow> onmessage s (Wellformed data) now = (None, s\<lparr>isLoading := False\<rparr>))
     \<and> (truthy r \<and> valid_child (the r) \<longrightarrow>
          onmessage s (Wellformed data) now
            = (None, (addMessage s (the r) False now)\<lparr>isLoading := False\<rparr>))
     \<and> (\<not> truthy r \<or> valid_child (the r) \<longrightarrow>
          fst (onmessage s (Wellformed data) now) = None
          \<and> isLoading (snd (onmessage s (Wellformed data) now)) = False)"
proof -
  from assms obtain r where r: "get_property data ''response'' = Inr r"
    using get_property_Inr by blast
  then show ?thesis
    by (cases "truthy r") (auto simp: onmessage_shown onmessage_not_truthy)
qed

text \<open>
  The theorem at the frame \<^verbatim>\<open>{}\<close> and at a frame with a reply, each received while a reply
  is awaited.
\<close>

theorem onmessage_clears_isLoading_witness:
  "JObject [] \<noteq> JNull
   \<and> isLoading (last (app_trace app_init [Mount, SocketOpen 0, Change ''Hi'', Submit 1]))
   \<and> \<not> truthy (map_of [] ''response'')
   \<and> onmessage (last (app_trace app_init [Mount, SocketOpen 0, Change ''Hi'', Submit 1]))
        (Wellformed (JObject [])) 2
       = (None, (last (app_trace app_init [Mount, SocketOpen 0, Change ''Hi'', Submit 1]))
                  \<lparr>isLoading := False\<rparr>)
   \<and> JObject [(''response'', JString ''Hello'')] \<noteq> JNull
   \<and> truthy (Some (JString ''Hello'')) \<and> valid_child (JString ''Hello'')
   \<and> fst (onmessage (last (app_trace app_init [Mount, SocketOpen 0, Change ''Hi'', Submit 1]))
        (Wellformed (JObject [(''response'', JString ''Hello'')])) 2) = None
   \<and> isLoading (snd (onmessage (last (app_trace app_init [Mount, SocketOpen 0, Change ''Hi'', Submit 1]))
        (Wellformed (JObject [(''response'', JString ''Hello'')])) 2)) = False"
  using onmessage_clears_isLoading
    [of "JObject []" "last (app_trace app_init [Mount, SocketOpen 0, Change ''Hi'', Submit 1])" 2]
    onmessage_clears_isLoading
    [of "JObject [(''response'', JString ''Hello'')]"
        "last (app_trace app_init [Mount, SocketOpen 0, Change ''Hi'', Submit 1])" 2]
  by (simp add: app_defs trim_def is_whitespace_def)

text \<open>
  Claim C9 as stated fails: the frame \<^verbatim>\<open>null\<close>, which has no truthy \<^verbatim>\<open>response\<close>, received
  while a reply is awaited, raises a TypeError and leaves the loading flag set.
\<close>

theorem null_frame_counterexample:
  "app_run app_init [Mount, SocketOpen 0, Change ''Hi'', Submit 1, SocketMessage 0 (Wellformed JNull) 2]
     \<noteq> None
   \<and> isLoading (last (app_trace app_init [Mount, SocketOpen 0, Change ''Hi'', Submit 1]))
   \<and> fst (app_step (last (app_trace app_init [Mount, SocketOpen 0, Change ''Hi'', Submit 1]))
        (SocketMessage 0 (Wellformed JNull) 2)) = Some TypeError
   \<and> isLoading (last (app_trace app_init
        [Mount, SocketOpen 0, Change ''Hi'', Submit 1, SocketMessage 0 (Wellformed JNull) 2]))"
  by (simp add: app_defs trim_def is_whitespace_def)

section \<open>Sending and the log\<close>

text \<open>
  Claim C5, as amended. A message submitted in \<^verbatim>\<open>App\<close> while the client is not connected,
  or before any socket exists, or with nothing but white space typed, is ignored:
  \<open>handleSubmit\<close> returns at its guard and changes nothing, so no entry is created and
  nothing is buffered or sent. There is no delivery state and no pending-send buffer. A
  message submitted while the client is connected and the socket it holds is open is
  appended to the log and handed to that socket in the same step, the input emptied and
  the loading flag set.
\<close>

theorem submit_only_while_connected:
  "(trim (input s) = [] \<or> wsRef s = None \<or> isConnected s = False \<longrightarrow>
      handleSubmit s now = (None, s) \<and> app_step s (Submit now) = (None, s))
   \<and> (trim (input s) \<noteq> [] \<and> isConnected s \<and> wsRef s = Some i \<and> i < length (sockets s)
        \<and> readyState (sockets s ! i) = OPEN \<longrightarrow>
      handleSubmit s now
        = (None,
           s\<lparr>messages := messages s @
                  [\<lparr>text = JString (input s), isUser = True, timestamp = now\<rparr>],
             timers := timers s @ [(100, ScrollIntoView)],
             sockets := (sockets s)
               [i := (sockets s ! i)
                  \<lparr>sent := sent (sockets s ! i) @
                     [JObject [(''message'', JString (input s)),
                               (''user_id'', JString ''default'')]]\<rparr>],
             input := [], isLoading := True\<rparr>))"
  by (auto simp: handleSubmit_def addMessage_def send_def Let_def)

text \<open>
  The theorem at a message typed after the mount, submitted before the socket has opened
  and again once it has.
\<close>

theorem submit_only_while_connected_witness:
  "isConnected (last (app_trace app_init [Mount, Change ''Hi''])) = False
   \<and> input (last (app_trace app_init [Mount, Change ''Hi''])) = ''Hi''
   \<and> app_step (last (app_trace app_init [Mount, Change ''Hi''])) (Submit 1)
       = (None, last (app_trace app_init [Mount, Change ''Hi'']))
   \<and> trim ''Hi'' \<noteq> []
   \<and> isConnected (last (app_trace app_init [Mount, Change ''Hi'', SocketOpen 0]))
   \<and> wsRef (last (app_trace app_init [Mount, Change ''Hi'', SocketOpen 0])) = Some 0
   \<and> readyState (sockets (last (app_trace app_init [Mount, Change ''Hi'', SocketOpen 0])) ! 0) = OPEN
   \<and> messages (snd (handleSubmit (last (app_trace app_init [Mount, Change ''Hi'', SocketOpen 0])) 1))
       = [\<lparr>text = JString ''Hi'', isUser = True, timestamp = 1\<rparr>]
   \<and> sent (sockets (snd (handleSubmit
            (last (app_trace app_init [Mount, Change ''Hi'', SocketOpen 0])) 1)) ! 0)
       = [JObject [(''message'', JString ''Hi''), (''user_id'', JString ''default'')]]"
  using submit_only_while_connected [of "last (app_trace app_init [Mount, Change ''Hi''])" 1 0]
    submit_only_while_connected
      [of "last (app_trace app_init [Mount, Change ''Hi'', SocketOpen 0])" 0 1]
  by (simp add: app_defs trim_def is_whitespace_def)

text \<open>
  Claim C5 as stated fails: a message submitted before the socket exists, or while it is
  still connecting, leaves the log empty and nothing with the socket.
\<close>

theorem pending_entry_counterexample:
  "app_run app_init [Change ''Hi'', Submit 1] \<noteq> None
   \<and> messages (last (app_trace app_init [Change ''Hi'', Submit 1])) = []
   \<and> app_run app_init [Mount, Change ''Hi'', Submit 1] \<noteq> None
   \<and> messages (last (app_trace app_init [Mount, Change ''Hi'', Submit 1])) = []
   \<and> sent (sockets (last (app_trace app_init [Mount, Change ''Hi'', Submit 1])) ! 0) = []"
  by (simp add: app_defs)

text \<open>
  Claim C6. Clearing the chat empties the log, to length 0, in one step and leaves the
  connection (the socket held and every socket's state) and the credentials of the
  session as they were: nothing but the log changes.
\<close>

theorem clear_history_frame:
  "ci_messages (chat (clear_history c)) = []
   \<and> length (ci_messages (chat (clear_history c))) = 0
   \<and> socket (chat (clear_history c)) = socket (chat c)
   \<and> ci_sockets (chat (clear_history c)) = ci_sockets (chat c)
   \<and> credentials_of (clear_history c) = credentials_of c
   \<and> clear_history c = c\<lparr>chat := (chat c)\<lparr>ci_messages := []\<rparr>\<rparr>"
  by (simp add: clear_history_def handleClearChat_def)

text \<open>
  Claim C10, as amended. The log is append-only except for clear: an event other than
  clear after which the component is still on the page either leaves the log as it is (a
  send refused by its guard, a frame without a reply to show, a frame on which the
  handler throws, an event that does not concern the log) or appends exactly one entry at
  its end, the entries before it unchanged and in their order. The events set aside are
  those on which React removes the component: in \<^verbatim>\<open>App\<close> a frame whose truthy reply it
  cannot render, in \<^verbatim>\<open>ChatInterface\<close> the frame \<^verbatim>\<open>null\<close>, a frame whose timestamp makes no
  date and a frame whose message it cannot render.
\<close>

theorem log_append_only:
  "(fst (app_step s ev) \<noteq> Some InvalidChild \<longrightarrow>
      messages (snd (app_step s ev)) = messages s
      \<or> (\<exists>m. messages (snd (app_step s ev)) = messages s @ [m]))
   \<and> (cev \<noteq> CiClear \<and> fst (ci_step c cev) \<noteq> Some TypeError
        \<and> fst (ci_step c cev) \<noteq> Some InvalidChild \<longrightarrow>
        ci_messages (snd (ci_step c cev)) = ci_messages c
        \<or> (\<exists>m. ci_messages (snd (ci_step c cev)) = ci_messages c @ [m]))"
  using app_step_log ci_step_log by blast

text \<open>The theorem at a message sent from each client.\<close>

theorem log_append_only_witness:
  "CiSend 7 \<noteq> CiClear
   \<and> fst (ci_step (snd (ci_step (ci_mount chat_init) (CiChange ''Hi''))) (CiSend 7)) = None
   \<and> ci_messages (snd (ci_step (snd (ci_step (ci_mount chat_init) (CiChange ''Hi''))) (CiSend 7)))
       = ci_messages (snd (ci_step (ci_mount chat_init) (CiChange ''Hi'')))
          @ [\<lparr>ci_id = ''7'', content = Some (JString ''Hi''), ci_isUser = True,
              ci_timestamp = Date_now 7\<rparr>]
   \<and> fst (app_step (last (app_trace app_init [Mount, SocketOpen 0, Change ''Hi''])) (Submit 7)) = None
   \<and> messages (snd (app_step (last (app_trace app_init [Mount, SocketOpen 0, Change ''Hi''])) (Submit 7)))
       = messages (last (app_trace app_init [Mount, SocketOpen 0, Change ''Hi'']))
          @ [\<lparr>text = JString ''Hi'', isUser = True, timestamp = 7\<rparr>]"
  using log_append_only
    [of "last (app_trace app_init [Mount, SocketOpen 0, Change ''Hi''])" "Submit 7"
        "CiSend 7" "snd (ci_step (ci_mount chat_init) (CiChange ''Hi''))"]
  by (simp add: app_defs chat_defs trim_def is_whitespace_def toString.simps)

text \<open>
  Claim C10 as stated fails: a send refused by its guard and a frame without a reply are
  operations other than clear after which the log is the same, so the old log is not a
  strict prefix of the new one.
\<close>

theorem strict_prefix_counterexample:
  "app_run app_init [Mount, Change ''Hi'', Submit 1] \<noteq> None
   \<and> fst (app_step (last (app_trace app_init [Mount, Change ''Hi''])) (Submit 1)) = None
   \<and> \<not> strict_prefix (messages (last (app_trace app_init [Mount, Change ''Hi''])))
         (messages (snd (app_step (last (app_trace app_init [Mount, Change ''Hi''])) (Submit 1))))
   \<and> app_run app_init [Mount, SocketOpen 0, SocketMessage 0 (Wellformed (JObject [])) 1] \<noteq> None
   \<and> fst (app_step (last (app_trace app_init [Mount, SocketOpen 0]))
            (SocketMessage 0 (Wellformed (JObject [])) 1)) = None
   \<and> \<not> strict_prefix (messages (last (app_trace app_init [Mount, SocketOpen 0])))
         (messages (snd (app_step (last (app_trace app_init [Mount, SocketOpen 0]))
            (SocketMessage 0 (Wellformed (JObject [])) 1))))"
  by (simp add: app_defs)

section \<open>The Session Manager\<close>

text \<open>
  Claim C7. \<open>logout\<close> is idempotent: after one call the credentials are absent from
  memory and from durable storage, and a second call changes nothing and leaves them
  absent.
\<close>

theorem logout_idempotent:
  "memory (logout ses) = None \<and> durable (logout ses) = None
   \<and> logout (logout ses) = logout ses
   \<and> memory (logout (logout ses)) = None \<and> durable (logout (logout ses)) = None"
  by (simp add: logout_def)




end
